theory Spec2Isabelle
  imports Main "HOL-Library.Char_ord" "HOL-Library.List_Lexorder" "HOL-Library.Sublist"
begin

section \<open>The persisted tables\<close>

text \<open>
  Modelled from the spec: the schema of the Games and Predictions tables is not part of
  the two modules; the columns are the ones the SQL of the modules names (section 3 of
  the specification lists the same fields). Text columns are strings, because the
  queries compare them with string literals and, for \<open>date_time_est\<close>, with \<open><\<close>
  (SQLite compares text bytewise, which is the lexicographic order on \<open>char list\<close>).
  The two flags are integers, as the queries compare them with \<open>0\<close>, \<open>1\<close> and
  \<open>False\<close> (SQLite's name for \<open>0\<close>). No column is NULL.
\<close>

record game =
  game_id :: string
  season :: string
  season_type :: string
  home_team :: string
  away_team :: string
  date_time_est :: string
  status :: string
  game_data_finalized :: int
  pre_game_data_finalized :: int

record prediction =
  p_game_id :: string
  p_predictor :: string

text \<open>
  The database behind \<open>db_path\<close>. \<open>other_tables\<close> stands for the tables that only the
  collaborating modules read and write (play-by-play logs, game states, feature sets).
\<close>

record 'x database =
  Games :: "game list"
  Predictions :: "prediction list"
  other_tables :: 'x

text \<open>A row of \<open>cursor.fetchall()\<close> for a query that selects one column: a 1-tuple.\<close>

datatype 'a tuple1 = Tuple1 (item0: 'a)

text \<open>
  The values the work-set functions return, as Python sees them, so that a list of
  identifiers and a list of 1-tuples can be compared.
\<close>

datatype pyval = PyStr string | PyTuple "pyval list" | PyList "pyval list"

definition py_of_ids :: "string list \<Rightarrow> pyval" where
  "py_of_ids ids = PyList (map PyStr ids)"

definition py_of_rows :: "string tuple1 list \<Rightarrow> pyval" where
  "py_of_rows rows = PyList (map (\<lambda>r. PyTuple [PyStr (item0 r)]) rows)"

section \<open>Stage queries of \<open>database_updater.py\<close>\<close>

text \<open>
  A query is a scan of the table: WHERE is \<open>filter\<close>, the selected column is \<open>map\<close>,
  and \<open>fetchall\<close> gives one 1-tuple per row. SQL leaves the order of the rows open; the
  statements below are about the set of the rows. The double-quoted
  \<open>"Regular Season"\<close> and \<open>"Post Season"\<close> name no column, so SQLite reads them as
  string literals.
\<close>

definition du_get_games_needing_game_state_update :: "string \<Rightarrow> 'x database \<Rightarrow> string list" where
  "du_get_games_needing_game_state_update for_season db =
     (let games_to_update =
            map (\<lambda>g. Tuple1 (game_id g))
              (filter (\<lambda>g. season g = for_season
                         \<and> season_type g \<in> {''Regular Season'', ''Post Season''}
                         \<and> (status g = ''Completed'' \<or> status g = ''In Progress'')
                         \<and> game_data_finalized g = 0)
                 (Games db))
      in map item0 games_to_update)"

text \<open>
  The WHERE clause of the correlated subquery under NOT EXISTS (the same text in both
  modules): \<open>g2\<close> is a game of the season, scheduled strictly before \<open>g1\<close>, with a team
  of \<open>g1\<close> on either side, whose game data is not finalized.
\<close>

definition prior_game_pending :: "string \<Rightarrow> game \<Rightarrow> game \<Rightarrow> bool" where
  "prior_game_pending for_season g1 g2 \<longleftrightarrow>
     season g2 = for_season
     \<and> date_time_est g2 < date_time_est g1
     \<and> (home_team g2 = home_team g1 \<or> away_team g2 = home_team g1
        \<or> home_team g2 = away_team g1 \<or> away_team g2 = away_team g1)
     \<and> game_data_finalized g2 = 0"

text \<open>UNION keeps one copy of each row of the two SELECTs.\<close>

definition sql_union :: "'a list \<Rightarrow> 'a list \<Rightarrow> 'a list" where
  "sql_union rows1 rows2 = remdups (rows1 @ rows2)"

definition du_get_games_with_incomplete_pre_game_data :: "string \<Rightarrow> 'x database \<Rightarrow> string list" where
  "du_get_games_with_incomplete_pre_game_data for_season db =
     (let results =
            sql_union
              (map (\<lambda>g. Tuple1 (game_id g))
                 (filter (\<lambda>g. season g = for_season
                            \<and> season_type g \<in> {''Regular Season'', ''Post Season''}
                            \<and> pre_game_data_finalized g = 0
                            \<and> (status g = ''Completed'' \<or> status g = ''In Progress''))
                    (Games db)))
              (map (\<lambda>g1. Tuple1 (game_id g1))
                 (filter (\<lambda>g1. season g1 = for_season
                            \<and> season_type g1 \<in> {''Regular Season'', ''Post Season''}
                            \<and> pre_game_data_finalized g1 = 0
                            \<and> status g1 = ''Not Started''
                            \<and> \<not> list_ex (prior_game_pending for_season g1) (Games db))
                    (Games db)))
      in map item0 results)"

text \<open>
  LEFT JOIN: every game is paired with each prediction row that satisfies the ON clause,
  or once with NULL (\<open>None\<close>) when there is none.
\<close>

definition left_join :: "'a list \<Rightarrow> 'b list \<Rightarrow> ('a \<Rightarrow> 'b \<Rightarrow> bool) \<Rightarrow> ('a \<times> 'b option) list" where
  "left_join ls rs on =
     concat (map (\<lambda>l. case filter (on l) rs of
                          [] \<Rightarrow> [(l, None)]
                        | ms \<Rightarrow> map (\<lambda>r. (l, Some r)) ms) ls)"

definition du_get_games_for_prediction_update ::
    "string \<Rightarrow> string \<Rightarrow> 'x database \<Rightarrow> string list" where
  "du_get_games_for_prediction_update for_season for_predictor db =
     (let result =
            map (\<lambda>(g, p). Tuple1 (game_id g))
              (filter (\<lambda>(g, p). season g = for_season
                              \<and> season_type g \<in> {''Regular Season'', ''Post Season''}
                              \<and> pre_game_data_finalized g = 1
                              \<and> p = None)
                 (left_join (Games db) (Predictions db)
                    (\<lambda>g p. game_id g = p_game_id p \<and> p_predictor p = for_predictor)));
          game_ids = map item0 result
      in game_ids)"

section \<open>Stage queries of \<open>on_load.py\<close>\<close>

definition ol_get_games_needing_game_state_update :: "string \<Rightarrow> 'x database \<Rightarrow> string list" where
  "ol_get_games_needing_game_state_update for_season db =
     (let games_to_update =
            map (\<lambda>g. Tuple1 (game_id g))
              (filter (\<lambda>g. season g = for_season
                         \<and> (status g = ''Completed'' \<or> status g = ''In Progress'')
                         \<and> game_data_finalized g = 0)
                 (Games db))
      in map item0 games_to_update)"

definition ol_get_games_with_incomplete_pre_game_data :: "string \<Rightarrow> 'x database \<Rightarrow> string list" where
  "ol_get_games_with_incomplete_pre_game_data for_season db =
     (let results =
            sql_union
              (map (\<lambda>g. Tuple1 (game_id g))
                 (filter (\<lambda>g. season g = for_season
                            \<and> pre_game_data_finalized g = 0
                            \<and> (status g = ''Completed'' \<or> status g = ''In Progress''))
                    (Games db)))
              (map (\<lambda>g1. Tuple1 (game_id g1))
                 (filter (\<lambda>g1. season g1 = for_season
                            \<and> pre_game_data_finalized g1 = 0
                            \<and> status g1 = ''Not Started''
                            \<and> \<not> list_ex (prior_game_pending for_season g1) (Games db))
                    (Games db)))
      in map item0 results)"

text \<open>This one returns the fetched rows themselves, a list of 1-tuples.\<close>

definition ol_get_games_for_prediction_update ::
    "string \<Rightarrow> string \<Rightarrow> 'x database \<Rightarrow> string tuple1 list" where
  "ol_get_games_for_prediction_update for_season for_predictor db =
     (let result =
            map (\<lambda>(g, p). Tuple1 (game_id g))
              (filter (\<lambda>(g, p). season g = for_season
                              \<and> pre_game_data_finalized g = 1
                              \<and> p = None)
                 (left_join (Games db) (Predictions db)
                    (\<lambda>g p. game_id g = p_game_id p \<and> p_predictor p = for_predictor)))
      in result)"

section \<open>The pre-game-data stage\<close>

text \<open>
  The value \<open>load_prior_states\<close> returns: a dictionary from game identifier to a
  structure whose entry \<open>"missing_prior_states"\<close> holds one boolean for each side.
  The dictionary is the list of its items in iteration order. The other entries of the
  structure are read by the feature computation only.
\<close>

record missing_sides =
  home :: bool
  away :: bool

record states =
  missing_prior_states :: missing_sides

text \<open>
  Modelled from the spec: the collaborators of the stage are imported from modules that
  are not part of the two files (section 6 of the specification gives their contracts).
  They read the database; \<open>save_feature_sets\<close> writes the feature-set table, which is
  one of the \<open>other_tables\<close>, and leaves the Games table alone (section 3: the flag
  is written by this stage's own UPDATE only).
\<close>

record ('n, 'f, 'x) collaborators =
  determine_prior_states_needed :: "string list \<Rightarrow> 'x database \<Rightarrow> 'n"
  load_prior_states :: "'n \<Rightarrow> 'x database \<Rightarrow> (string \<times> states) list"
  create_feature_sets :: "(string \<times> states) list \<Rightarrow> 'x database \<Rightarrow> 'f"
  save_feature_sets :: "'f \<Rightarrow> 'x database \<Rightarrow> 'x"

text \<open>Python's \<open>int\<close> of a boolean.\<close>

definition py_int :: "bool \<Rightarrow> int" where
  "py_int b = (if b then 1 else 0)"

text \<open>The value the loop computes for one game: \<open>int(not home and not away)\<close>.\<close>

definition pre_game_data_finalized_flag :: "states \<Rightarrow> int" where
  "pre_game_data_finalized_flag sts =
     py_int (\<not> home (missing_prior_states sts) \<and> \<not> away (missing_prior_states sts))"

text \<open>
  The loop over \<open>prior_states_dict.items()\<close>, appending one (flag, identifier) pair
  per game to \<open>games_update_data\<close>.
\<close>

fun games_update_data_loop ::
    "(string \<times> states) list \<Rightarrow> (int \<times> string) list \<Rightarrow> (int \<times> string) list" where
  "games_update_data_loop [] games_update_data = games_update_data"
| "games_update_data_loop ((gid, sts) # items) games_update_data =
     games_update_data_loop items
       (games_update_data @ [(pre_game_data_finalized_flag sts, gid)])"

definition games_update_data :: "(string \<times> states) list \<Rightarrow> (int \<times> string) list" where
  "games_update_data prior_states_dict = games_update_data_loop prior_states_dict []"

subsection \<open>The write through sqlite3\<close>

text \<open>
  A connection works on its own copy of the table inside a transaction: \<open>commit\<close>
  makes the copy the persisted table, \<open>rollback\<close> drops it.
\<close>

datatype sqlite_error = OperationalError

record connection =
  committed :: "game list"
  working :: "game list"

definition connect :: "game list \<Rightarrow> connection" where
  "connect persisted = \<lparr>committed = persisted, working = persisted\<rparr>"

definition commit :: "connection \<Rightarrow> connection" where
  "commit conn = conn\<lparr>committed := working conn\<rparr>"

definition rollback :: "connection \<Rightarrow> connection" where
  "rollback conn = conn\<lparr>working := committed conn\<rparr>"

text \<open>
  \<open>UPDATE Games SET pre_game_data_finalized = ? WHERE game_id = ?\<close> with the pair
  \<open>params\<close>: what it does to one row, and to the table.
\<close>

definition update_game :: "int \<times> string \<Rightarrow> game \<Rightarrow> game" where
  "update_game params g =
     (if game_id g = snd params then g\<lparr>pre_game_data_finalized := fst params\<rparr> else g)"

definition update_games :: "int \<times> string \<Rightarrow> game list \<Rightarrow> game list" where
  "update_games params games = map (update_game params) games"

text \<open>
  \<open>cursor.executemany\<close> runs the statement once per pair, in order. \<open>fault\<close> is the
  behaviour of the storage: \<open>Some k\<close> makes the statement after the first \<open>k\<close> raise
  (when the batch is that long), \<open>None\<close> lets every statement through. The exception
  leaves the connection with the updates made so far in its working copy.
\<close>

fun executemany ::
    "nat option \<Rightarrow> (int \<times> string) list \<Rightarrow> connection \<Rightarrow> sqlite_error option \<times> connection" where
  "executemany fault [] conn = (None, conn)"
| "executemany fault (params # rest) conn =
     (if fault = Some 0 then (Some OperationalError, conn)
      else executemany (map_option (\<lambda>k. k - 1) fault) rest
             (conn\<lparr>working := update_games params (working conn)\<rparr>))"

text \<open>
  The block \<open>with sqlite3.connect(db_path) as conn\<close> of \<open>update_pre_game_data\<close>
  (the same in both modules): \<open>executemany\<close>, then \<open>conn.commit()\<close>; the context
  manager commits when the block ends normally and rolls back when an exception leaves
  it. The result is the exception, if any, and the database as persisted afterwards.
\<close>

definition write_games_update_data ::
    "nat option \<Rightarrow> (int \<times> string) list \<Rightarrow> 'x database \<Rightarrow> sqlite_error option \<times> 'x database" where
  "write_games_update_data fault batch db =
     (let conn = connect (Games db) in
      case executemany fault batch conn of
        (None, conn1) \<Rightarrow> (None, db\<lparr>Games := committed (commit (commit conn1))\<rparr>)
      | (Some e, conn1) \<Rightarrow> (Some e, db\<lparr>Games := committed (rollback conn1)\<rparr>))"

subsection \<open>\<open>update_pre_game_data\<close> of the two modules\<close>

definition du_prior_states_dict ::
    "('n, 'f, 'x) collaborators \<Rightarrow> string \<Rightarrow> 'x database \<Rightarrow> (string \<times> states) list" where
  "du_prior_states_dict co for_season db =
     (let game_ids = du_get_games_with_incomplete_pre_game_data for_season db;
          prior_states_needed = determine_prior_states_needed co game_ids db
      in load_prior_states co prior_states_needed db)"

definition du_update_pre_game_data ::
    "('n, 'f, 'x) collaborators \<Rightarrow> nat option \<Rightarrow> string \<Rightarrow> 'x database
       \<Rightarrow> sqlite_error option \<times> 'x database" where
  "du_update_pre_game_data co fault for_season db =
     (let prior_states_dict = du_prior_states_dict co for_season db;
          feature_sets = create_feature_sets co prior_states_dict db;
          db1 = db\<lparr>other_tables := save_feature_sets co feature_sets db\<rparr>
      in write_games_update_data fault (games_update_data prior_states_dict) db1)"

definition ol_prior_states_dict ::
    "('n, 'f, 'x) collaborators \<Rightarrow> string \<Rightarrow> 'x database \<Rightarrow> (string \<times> states) list" where
  "ol_prior_states_dict co for_season db =
     (let game_ids = ol_get_games_with_incomplete_pre_game_data for_season db;
          prior_states_needed = determine_prior_states_needed co game_ids db
      in load_prior_states co prior_states_needed db)"

definition ol_update_pre_game_data ::
    "('n, 'f, 'x) collaborators \<Rightarrow> nat option \<Rightarrow> string \<Rightarrow> 'x database
       \<Rightarrow> sqlite_error option \<times> 'x database" where
  "ol_update_pre_game_data co fault for_season db =
     (let prior_states_dict = ol_prior_states_dict co for_season db;
          feature_sets = create_feature_sets co prior_states_dict db;
          db1 = db\<lparr>other_tables := save_feature_sets co feature_sets db\<rparr>
      in write_games_update_data fault (games_update_data prior_states_dict) db1)"

section \<open>The orchestrator\<close>

text \<open>
  \<open>update_database\<close> calls the stage functions one after the other. A call is
  recorded with its arguments; what a stage does to the world, or the exception it
  raises, is the parameter \<open>exec\<close>. An exception ends the run: no later statement of
  \<open>update_database\<close> is executed.
\<close>

datatype stage_call =
    Update_schedule string
  | Update_game_data string string
  | Update_pre_game_data string string
  | Update_prediction_data string "string option" string
  | Update_predictions string "string option" string

record ('w, 'e) run =
  world :: 'w
  calls :: "stage_call list"
  raised :: "'e option"

definition start :: "'w \<Rightarrow> ('w, 'e) run" where
  "start w = \<lparr>world = w, calls = [], raised = None\<rparr>"

definition call_stage ::
    "(stage_call \<Rightarrow> 'w \<Rightarrow> 'e + 'w) \<Rightarrow> stage_call \<Rightarrow> ('w, 'e) run \<Rightarrow> ('w, 'e) run" where
  "call_stage exec c r =
     (case raised r of
        Some e \<Rightarrow> r
      | None \<Rightarrow>
          (case exec c (world r) of
             Inl e \<Rightarrow> r\<lparr>calls := calls r @ [c], raised := Some e\<rparr>
           | Inr w \<Rightarrow> r\<lparr>world := w, calls := calls r @ [c]\<rparr>))"

text \<open>
  The truth value of the \<open>predictor\<close> argument in \<open>if predictor:\<close>. The argument is
  \<open>None\<close> or a string; the empty string is false.
\<close>

definition py_truthy :: "string option \<Rightarrow> bool" where
  "py_truthy v = (case v of None \<Rightarrow> False | Some s \<Rightarrow> s \<noteq> [])"

definition du_update_database ::
    "(stage_call \<Rightarrow> 'w \<Rightarrow> 'e + 'w) \<Rightarrow> string \<Rightarrow> string option \<Rightarrow> string
       \<Rightarrow> ('w, 'e) run \<Rightarrow> ('w, 'e) run" where
  "du_update_database exec for_season predictor db_path r0 =
     (let r1 = call_stage exec (Update_schedule for_season) r0;
          r2 = call_stage exec (Update_game_data for_season db_path) r1;
          r3 = call_stage exec (Update_pre_game_data for_season db_path) r2
      in if py_truthy predictor
         then call_stage exec (Update_prediction_data for_season predictor db_path) r3
         else r3)"

definition ol_update_database ::
    "(stage_call \<Rightarrow> 'w \<Rightarrow> 'e + 'w) \<Rightarrow> string \<Rightarrow> string option \<Rightarrow> string
       \<Rightarrow> ('w, 'e) run \<Rightarrow> ('w, 'e) run" where
  "ol_update_database exec for_season predictor db_path r0 =
     (let r1 = call_stage exec (Update_schedule for_season) r0;
          r2 = call_stage exec (Update_game_data for_season db_path) r1;
          r3 = call_stage exec (Update_pre_game_data for_season db_path) r2
      in if py_truthy predictor
         then call_stage exec (Update_predictions for_season predictor db_path) r3
         else r3)"

section \<open>A small season\<close>

text \<open>
  Four regular-season games of 2023-2024, used where a statement is evaluated. \<open>gA\<close>
  is completed and waits for its game data; \<open>gB\<close> and \<open>gC\<close> have not started
  (\<open>gB\<close> shares BOS with the earlier \<open>gA\<close>, \<open>gC\<close> shares no team with an
  earlier game); \<open>gH\<close> is completed, with its game data finalized and its pre-game
  data not. One prediction, by the predictor Baseline, exists for \<open>gA\<close>.
\<close>

definition gA :: game where
  "gA = \<lparr>game_id = ''A'', season = ''2023-2024'', season_type = ''Regular Season'',
         home_team = ''BOS'', away_team = ''NYK'', date_time_est = ''2023-10-25'',
         status = ''Completed'', game_data_finalized = 0, pre_game_data_finalized = 1\<rparr>"

definition gB :: game where
  "gB = \<lparr>game_id = ''B'', season = ''2023-2024'', season_type = ''Regular Season'',
         home_team = ''LAL'', away_team = ''BOS'', date_time_est = ''2023-10-27'',
         status = ''Not Started'', game_data_finalized = 0, pre_game_data_finalized = 0\<rparr>"

definition gC :: game where
  "gC = \<lparr>game_id = ''C'', season = ''2023-2024'', season_type = ''Regular Season'',
         home_team = ''MIA'', away_team = ''DEN'', date_time_est = ''2023-10-28'',
         status = ''Not Started'', game_data_finalized = 0, pre_game_data_finalized = 0\<rparr>"

definition gH :: game where
  "gH = \<lparr>game_id = ''H'', season = ''2023-2024'', season_type = ''Regular Season'',
         home_team = ''PHX'', away_team = ''UTA'', date_time_est = ''2023-10-24'',
         status = ''Completed'', game_data_finalized = 1, pre_game_data_finalized = 0\<rparr>"

definition season_db :: "unit database" where
  "season_db = \<lparr>Games = [gA, gB, gC, gH],
                 Predictions = [\<lparr>p_game_id = ''A'', p_predictor = ''Baseline''\<rparr>],
                 other_tables = ()\<rparr>"

text \<open>
  Three pre-season games of the same season, no two with a team in common: \<open>pD\<close>
  completed and waiting for its game data, \<open>pE\<close> not started, \<open>pF\<close> with its
  pre-game data finalized.
\<close>

definition pD :: game where
  "pD = \<lparr>game_id = ''D'', season = ''2023-2024'', season_type = ''Pre Season'',
         home_team = ''CHI'', away_team = ''DET'', date_time_est = ''2023-10-10'',
         status = ''Completed'', game_data_finalized = 0, pre_game_data_finalized = 0\<rparr>"

definition pE :: game where
  "pE = \<lparr>game_id = ''E'', season = ''2023-2024'', season_type = ''Pre Season'',
         home_team = ''SAS'', away_team = ''HOU'', date_time_est = ''2023-10-12'',
         status = ''Not Started'', game_data_finalized = 0, pre_game_data_finalized = 0\<rparr>"

definition pF :: game where
  "pF = \<lparr>game_id = ''F'', season = ''2023-2024'', season_type = ''Pre Season'',
         home_team = ''ATL'', away_team = ''ORL'', date_time_est = ''2023-10-08'',
         status = ''Completed'', game_data_finalized = 1, pre_game_data_finalized = 1\<rparr>"

definition pre_season_db :: "unit database" where
  "pre_season_db = \<lparr>Games = [pD, pE, pF], Predictions = [], other_tables = ()\<rparr>"

text \<open>
  Collaborators for the evaluated runs: the prior states needed are the work set itself,
  and every game of it is loaded, with both sides' prior states present except for the
  game \<open>H\<close>, whose home side is missing.
\<close>

definition example_collaborators :: "(string list, unit, unit) collaborators" where
  "example_collaborators =
     \<lparr>determine_prior_states_needed = (\<lambda>game_ids db. game_ids),
      load_prior_states = (\<lambda>needed db.
         map (\<lambda>gid. (gid, \<lparr>missing_prior_states = \<lparr>home = (gid = ''H''), away = False\<rparr>\<rparr>)) needed),
      create_feature_sets = (\<lambda>prior_states_dict db. ()),
      save_feature_sets = (\<lambda>feature_sets db. other_tables db)\<rparr>"


section \<open>Facts about the queries\<close>

lemmas example_defs = season_db_def pre_season_db_def gA_def gB_def gC_def gH_def pD_def pE_def pF_def

lemma inj_game_id:
  "distinct (map game_id gs) \<Longrightarrow> g \<in> set gs \<Longrightarrow> g' \<in> set gs \<Longrightarrow> game_id g' = game_id g
     \<Longrightarrow> g' = g"
  by (auto simp: distinct_map dest: inj_onD)

lemma set_left_join_row:
  "set (case filter f rs of [] \<Rightarrow> [(l, None)] | ms \<Rightarrow> map (\<lambda>r. (l, Some r)) ms) =
     (if \<exists>r \<in> set rs. f r then (\<lambda>r. (l, Some r)) ` {r \<in> set rs. f r} else {(l, None)})"
proof (cases "filter f rs")
  case Nil
  then show ?thesis by (auto simp: filter_empty_conv)
next
  case (Cons m ms)
  have "{r \<in> set rs. f r} = set (filter f rs)" by auto
  then have eq: "{r \<in> set rs. f r} = set (m # ms)" using Cons by simp
  then have "m \<in> {r \<in> set rs. f r}" by simp
  then have ex: "\<exists>r \<in> set rs. f r" by blast
  show ?thesis unfolding Cons eq using ex by simp
qed

lemma set_left_join:
  "set (left_join ls rs on) =
     (\<Union>l \<in> set ls. if \<exists>r \<in> set rs. on l r then (\<lambda>r. (l, Some r)) ` {r \<in> set rs. on l r}
                     else {(l, None)})"
  unfolding left_join_def set_concat by (simp add: set_left_join_row)

lemma set_left_join_None:
  "(l, None) \<in> set (left_join ls rs on) \<longleftrightarrow> l \<in> set ls \<and> \<not> (\<exists>r \<in> set rs. on l r)"
  by (auto simp: set_left_join split: if_splits)

lemma set_du_state: "set (du_get_games_needing_game_state_update s db) =
     game_id ` {g \<in> set (Games db). season g = s
                  \<and> (season_type g = ''Regular Season'' \<or> season_type g = ''Post Season'')
                  \<and> (status g = ''Completed'' \<or> status g = ''In Progress'')
                  \<and> game_data_finalized g = 0}"
  by (auto simp: du_get_games_needing_game_state_update_def)

lemma set_ol_state: "set (ol_get_games_needing_game_state_update s db) =
     game_id ` {g \<in> set (Games db). season g = s
                  \<and> (status g = ''Completed'' \<or> status g = ''In Progress'')
                  \<and> game_data_finalized g = 0}"
  by (auto simp: ol_get_games_needing_game_state_update_def)

lemma set_ids_of_rows: "set (map item0 (map (\<lambda>g. Tuple1 (game_id g)) gs)) = game_id ` set gs"
  by (simp add: image_image)

lemma set_ids_of_union:
  "set (map item0 (sql_union (map (\<lambda>g. Tuple1 (game_id g)) gs1) (map (\<lambda>g. Tuple1 (game_id g)) gs2)))
     = game_id ` (set gs1 \<union> set gs2)"
  by (simp add: sql_union_def image_Un image_image)

lemma set_du_pre: "set (du_get_games_with_incomplete_pre_game_data s db) =
     game_id ` {g \<in> set (Games db). season g = s
                  \<and> (season_type g = ''Regular Season'' \<or> season_type g = ''Post Season'')
                  \<and> pre_game_data_finalized g = 0
                  \<and> (status g = ''Completed'' \<or> status g = ''In Progress''
                      \<or> status g = ''Not Started'' \<and> \<not> (\<exists>g2 \<in> set (Games db). prior_game_pending s g g2))}"
  unfolding du_get_games_with_incomplete_pre_game_data_def Let_def set_ids_of_union
  by (rule arg_cong [where f = "image game_id"]) (auto simp: list_ex_iff)

lemma set_ol_pre: "set (ol_get_games_with_incomplete_pre_game_data s db) =
     game_id ` {g \<in> set (Games db). season g = s
                  \<and> pre_game_data_finalized g = 0
                  \<and> (status g = ''Completed'' \<or> status g = ''In Progress''
                      \<or> status g = ''Not Started'' \<and> \<not> (\<exists>g2 \<in> set (Games db). prior_game_pending s g g2))}"
  unfolding ol_get_games_with_incomplete_pre_game_data_def Let_def set_ids_of_union
  by (rule arg_cong [where f = "image game_id"]) (auto simp: list_ex_iff)

lemma set_filter_left_join_None:
  "set (filter (\<lambda>(g, p). P g \<and> p = None) (left_join ls rs on)) =
     (\<lambda>g. (g, None)) ` {g \<in> set ls. P g \<and> \<not> (\<exists>r \<in> set rs. on g r)}"
proof -
  have "set (filter (\<lambda>(g, p). P g \<and> p = None) (left_join ls rs on)) =
          {(g, p). (g, p) \<in> set (left_join ls rs on) \<and> P g \<and> p = None}"
    by auto
  also have "\<dots> = {(g, p). p = None \<and> g \<in> set ls \<and> P g \<and> \<not> (\<exists>r \<in> set rs. on g r)}"
    using set_left_join_None [of _ ls rs on] by auto
  also have "\<dots> = (\<lambda>g. (g, None)) ` {g \<in> set ls. P g \<and> \<not> (\<exists>r \<in> set rs. on g r)}"
    by auto
  finally show ?thesis .
qed

lemma set_du_pred: "set (du_get_games_for_prediction_update s p db) =
     game_id ` {g \<in> set (Games db). (season g = s
                  \<and> (season_type g = ''Regular Season'' \<or> season_type g = ''Post Season'')
                  \<and> pre_game_data_finalized g = 1)
                  \<and> \<not> (\<exists>r \<in> set (Predictions db). game_id g = p_game_id r \<and> p_predictor r = p)}"
proof -
  have c: "(\<lambda>(g, p). season g = s \<and> season_type g \<in> {''Regular Season'', ''Post Season''}
                  \<and> pre_game_data_finalized g = 1 \<and> p = None)
         = (\<lambda>(g, p). (season g = s \<and> (season_type g = ''Regular Season'' \<or> season_type g = ''Post Season'')
                  \<and> pre_game_data_finalized g = 1) \<and> p = None)"
    by auto
  show ?thesis
    unfolding du_get_games_for_prediction_update_def Let_def c
    by (simp only: set_map set_filter_left_join_None image_image split_conv tuple1.sel)
qed

lemma set_ol_pred: "set (ol_get_games_for_prediction_update s p db) =
     (\<lambda>g. Tuple1 (game_id g)) ` {g \<in> set (Games db). (season g = s
                  \<and> pre_game_data_finalized g = 1)
                  \<and> \<not> (\<exists>r \<in> set (Predictions db). game_id g = p_game_id r \<and> p_predictor r = p)}"
proof -
  have c: "(\<lambda>(g, p). season g = s \<and> pre_game_data_finalized g = 1 \<and> p = None)
         = (\<lambda>(g, p). (season g = s \<and> pre_game_data_finalized g = 1) \<and> p = None)"
    by auto
  show ?thesis
    unfolding ol_get_games_for_prediction_update_def Let_def c
    by (simp only: set_map set_filter_left_join_None image_image split_conv)
qed

lemma set_left_join_fst: "(l, x) \<in> set (left_join ls rs on) \<Longrightarrow> l \<in> set ls"
  by (auto simp: set_left_join split: if_splits)

lemma work_sets_agree:
  assumes "\<forall>g \<in> set (Games db). season g = s \<longrightarrow>
             season_type g = ''Regular Season'' \<or> season_type g = ''Post Season''"
  shows "du_get_games_needing_game_state_update s db = ol_get_games_needing_game_state_update s db"
    and "du_get_games_with_incomplete_pre_game_data s db = ol_get_games_with_incomplete_pre_game_data s db"
    and "map Tuple1 (du_get_games_for_prediction_update s p db) = ol_get_games_for_prediction_update s p db"
proof -
  have f1: "filter (\<lambda>g. season g = s \<and> season_type g \<in> {''Regular Season'', ''Post Season''} \<and> P g) (Games db)
          = filter (\<lambda>g. season g = s \<and> P g) (Games db)" for P
    using assms by (intro filter_cong refl) auto
  show "du_get_games_needing_game_state_update s db = ol_get_games_needing_game_state_update s db"
    unfolding du_get_games_needing_game_state_update_def ol_get_games_needing_game_state_update_def
    by (simp only: f1)
  show "du_get_games_with_incomplete_pre_game_data s db = ol_get_games_with_incomplete_pre_game_data s db"
    unfolding du_get_games_with_incomplete_pre_game_data_def ol_get_games_with_incomplete_pre_game_data_def
    by (simp only: f1)
  have f2: "filter (\<lambda>(g, q). season g = s \<and> season_type g \<in> {''Regular Season'', ''Post Season''}
                       \<and> pre_game_data_finalized g = 1 \<and> q = None) (left_join (Games db) rs on)
          = filter (\<lambda>(g, q). season g = s \<and> pre_game_data_finalized g = 1 \<and> q = None)
              (left_join (Games db) rs on)" for rs on
    using assms by (intro filter_cong refl) (auto dest: set_left_join_fst)
  show "map Tuple1 (du_get_games_for_prediction_update s p db) = ol_get_games_for_prediction_update s p db"
    unfolding du_get_games_for_prediction_update_def ol_get_games_for_prediction_update_def Let_def
    by (simp only: f2) (simp add: comp_def split_def)
qed

lemma games_update_data_loop_map:
  "games_update_data_loop items acc =
     acc @ map (\<lambda>(gid, sts). (pre_game_data_finalized_flag sts, gid)) items"
  by (induction items acc rule: games_update_data_loop.induct) simp_all

lemma games_update_data_map:
  "games_update_data prior_states_dict =
     map (\<lambda>(gid, sts). (pre_game_data_finalized_flag sts, gid)) prior_states_dict"
  by (simp add: games_update_data_def games_update_data_loop_map)

section \<open>Facts about the write\<close>

lemma executemany_committed:
  "committed (snd (executemany fault batch conn)) = committed conn"
  by (induction batch arbitrary: fault conn) simp_all

lemma executemany_no_fault:
  "executemany None batch conn = (None, conn\<lparr>working := fold update_games batch (working conn)\<rparr>)"
  by (induction batch arbitrary: conn) simp_all

lemma executemany_late_fault:
  "length batch \<le> k \<Longrightarrow>
     executemany (Some k) batch conn = (None, conn\<lparr>working := fold update_games batch (working conn)\<rparr>)"
proof (induction batch arbitrary: k conn)
  case Nil
  then show ?case by simp
next
  case (Cons params rest)
  then obtain j where "k = Suc j" "length rest \<le> j" by (cases k) auto
  with Cons.IH [of j] show ?case by simp
qed

lemma executemany_fault:
  "k < length batch \<Longrightarrow>
     executemany (Some k) batch conn =
       (Some OperationalError, conn\<lparr>working := fold update_games (take k batch) (working conn)\<rparr>)"
proof (induction batch arbitrary: k conn)
  case Nil
  then show ?case by simp
next
  case (Cons params rest)
  show ?case
  proof (cases k)
    case 0
    then show ?thesis by simp
  next
    case (Suc j)
    with Cons.prems have "j < length rest" by simp
    with Cons.IH [of j] Suc show ?thesis by simp
  qed
qed

lemma write_fault:
  "k < length batch \<Longrightarrow> write_games_update_data (Some k) batch db = (Some OperationalError, db)"
  by (simp add: write_games_update_data_def executemany_fault connect_def rollback_def)

lemma write_no_fault:
  "write_games_update_data None batch db = (None, db\<lparr>Games := fold update_games batch (Games db)\<rparr>)"
  by (simp add: write_games_update_data_def executemany_no_fault connect_def commit_def)

lemma write_late_fault:
  "length batch \<le> k \<Longrightarrow>
     write_games_update_data (Some k) batch db = (None, db\<lparr>Games := fold update_games batch (Games db)\<rparr>)"
  by (simp add: write_games_update_data_def executemany_late_fault connect_def commit_def)

lemma write_cases:
  "write_games_update_data fault batch db = (Some OperationalError, db)
   \<or> write_games_update_data fault batch db = (None, db\<lparr>Games := fold update_games batch (Games db)\<rparr>)"
proof (cases fault)
  case None
  then show ?thesis by (simp add: write_no_fault)
next
  case (Some k)
  then show ?thesis by (cases "k < length batch") (simp_all add: write_fault write_late_fault)
qed

lemma fold_update_games_map: "fold update_games batch gs = map (fold update_game batch) gs"
  by (induction batch arbitrary: gs) (simp_all add: update_games_def comp_def)

lemma fold_update_game_row:
  "(game_id g \<notin> snd ` set batch \<and> fold update_game batch g = g)
   \<or> (\<exists>v. (v, game_id g) \<in> set batch \<and> fold update_game batch g = g\<lparr>pre_game_data_finalized := v\<rparr>)"
proof (induction batch arbitrary: g)
  case Nil
  then show ?case by simp
next
  case (Cons params rest)
  obtain v gid where params: "params = (v, gid)" by (cases params)
  show ?case
  proof (cases "gid = game_id g")
    case False
    then have g1: "update_game params g = g" by (simp add: update_game_def params)
    from Cons.IH [of g] show ?thesis
    proof
      assume "game_id g \<notin> snd ` set rest \<and> fold update_game rest g = g"
      with False g1 have "game_id g \<notin> snd ` set (params # rest)
          \<and> fold update_game (params # rest) g = g"
        by (auto simp: params)
      then show ?thesis ..
    next
      assume "\<exists>w. (w, game_id g) \<in> set rest
                \<and> fold update_game rest g = g\<lparr>pre_game_data_finalized := w\<rparr>"
      then obtain w where "(w, game_id g) \<in> set rest"
        "fold update_game rest g = g\<lparr>pre_game_data_finalized := w\<rparr>" by blast
      with g1 have "(w, game_id g) \<in> set (params # rest)
          \<and> fold update_game (params # rest) g = g\<lparr>pre_game_data_finalized := w\<rparr>"
        by simp
      then show ?thesis by blast
    qed
  next
    case True
    let ?g1 = "g\<lparr>pre_game_data_finalized := v\<rparr>"
    from True have g1: "update_game params g = ?g1" by (simp add: update_game_def params)
    have id1: "game_id ?g1 = game_id g" by simp
    from Cons.IH [of ?g1] show ?thesis
    proof
      assume "game_id ?g1 \<notin> snd ` set rest \<and> fold update_game rest ?g1 = ?g1"
      with g1 True have "(v, game_id g) \<in> set (params # rest)
          \<and> fold update_game (params # rest) g = g\<lparr>pre_game_data_finalized := v\<rparr>"
        by (simp add: params)
      then show ?thesis by blast
    next
      assume "\<exists>w. (w, game_id ?g1) \<in> set rest
                \<and> fold update_game rest ?g1 = ?g1\<lparr>pre_game_data_finalized := w\<rparr>"
      then obtain w where "(w, game_id g) \<in> set rest"
        "fold update_game rest ?g1 = g\<lparr>pre_game_data_finalized := w\<rparr>" by auto
      with g1 have "(w, game_id g) \<in> set (params # rest)
          \<and> fold update_game (params # rest) g = g\<lparr>pre_game_data_finalized := w\<rparr>"
        by simp
      then show ?thesis by blast
    qed
  qed
qed

lemma fold_update_games_rows:
  "list_all2 (\<lambda>g g'. (game_id g \<notin> snd ` set batch \<and> g' = g)
                  \<or> (\<exists>v. (v, game_id g) \<in> set batch \<and> g' = g\<lparr>pre_game_data_finalized := v\<rparr>))
     gs (fold update_games batch gs)"
  unfolding fold_update_games_map list_all2_map2
  by (rule list_all2_refl) (rule fold_update_game_row)

lemma write_rows:
  "list_all2 (\<lambda>g g'. g' = g
                  \<or> (\<exists>v. (v, game_id g) \<in> set batch \<and> g' = g\<lparr>pre_game_data_finalized := v\<rparr>))
     (Games db) (Games (snd (write_games_update_data fault batch db)))"
proof -
  from write_cases [of fault batch db] show ?thesis
  proof
    assume "write_games_update_data fault batch db = (Some OperationalError, db)"
    then show ?thesis by (simp add: list_all2_refl)
  next
    assume "write_games_update_data fault batch db
              = (None, db\<lparr>Games := fold update_games batch (Games db)\<rparr>)"
    moreover have "list_all2 (\<lambda>g g'. g' = g
                  \<or> (\<exists>v. (v, game_id g) \<in> set batch \<and> g' = g\<lparr>pre_game_data_finalized := v\<rparr>))
       (Games db) (fold update_games batch (Games db))"
      by (rule list_all2_mono [OF fold_update_games_rows]) blast
    ultimately show ?thesis by simp
  qed
qed

lemma write_keeps_other:
  "Predictions (snd (write_games_update_data fault batch db)) = Predictions db
   \<and> other_tables (snd (write_games_update_data fault batch db)) = other_tables db"
  using write_cases [of fault batch db] by auto

lemma flag_in_batch:
  "(v, gid) \<in> set (games_update_data prior_states_dict) \<longleftrightarrow>
     (\<exists>sts. (gid, sts) \<in> set prior_states_dict \<and> v = pre_game_data_finalized_flag sts)"
  by (auto simp: games_update_data_map)

lemma update_rows:
  "list_all2 (\<lambda>g g'. g' = g
       \<or> (\<exists>sts. (game_id g, sts) \<in> set prior_states_dict
               \<and> g' = g\<lparr>pre_game_data_finalized := pre_game_data_finalized_flag sts\<rparr>))
     (Games db) (Games (snd (write_games_update_data fault (games_update_data prior_states_dict) db)))"
  by (rule list_all2_mono [OF write_rows]) (auto simp: flag_in_batch)

lemma du_update_rows:
  "list_all2 (\<lambda>g g'. g' = g
       \<or> (\<exists>sts. (game_id g, sts) \<in> set (du_prior_states_dict co s db)
               \<and> g' = g\<lparr>pre_game_data_finalized := pre_game_data_finalized_flag sts\<rparr>))
     (Games db) (Games (snd (du_update_pre_game_data co fault s db)))"
  unfolding du_update_pre_game_data_def Let_def
  using update_rows [of "du_prior_states_dict co s db"
      "db\<lparr>other_tables := save_feature_sets co (create_feature_sets co (du_prior_states_dict co s db) db) db\<rparr>" fault]
  by simp

lemma ol_update_rows:
  "list_all2 (\<lambda>g g'. g' = g
       \<or> (\<exists>sts. (game_id g, sts) \<in> set (ol_prior_states_dict co s db)
               \<and> g' = g\<lparr>pre_game_data_finalized := pre_game_data_finalized_flag sts\<rparr>))
     (Games db) (Games (snd (ol_update_pre_game_data co fault s db)))"
  unfolding ol_update_pre_game_data_def Let_def
  using update_rows [of "ol_prior_states_dict co s db"
      "db\<lparr>other_tables := save_feature_sets co (create_feature_sets co (ol_prior_states_dict co s db) db) db\<rparr>" fault]
  by simp

lemma flag_1: "pre_game_data_finalized_flag sts = 1 \<longleftrightarrow>
    \<not> home (missing_prior_states sts) \<and> \<not> away (missing_prior_states sts)"
  by (simp add: pre_game_data_finalized_flag_def py_int_def)

section \<open>The stage run on the small season\<close>

lemma du_work_example:
  "du_get_games_with_incomplete_pre_game_data ''2023-2024'' season_db = [''H'', ''C'']"
  by (simp add: du_get_games_with_incomplete_pre_game_data_def sql_union_def
      prior_game_pending_def example_defs)

lemma ol_work_example:
  "ol_get_games_with_incomplete_pre_game_data ''2023-2024'' season_db = [''H'', ''C'']"
  by (simp add: ol_get_games_with_incomplete_pre_game_data_def sql_union_def
      prior_game_pending_def example_defs)

lemma du_dict_example:
  "du_prior_states_dict example_collaborators ''2023-2024'' season_db =
     [(''H'', \<lparr>missing_prior_states = \<lparr>home = True, away = False\<rparr>\<rparr>),
      (''C'', \<lparr>missing_prior_states = \<lparr>home = False, away = False\<rparr>\<rparr>)]"
  by (simp add: du_prior_states_dict_def du_work_example example_collaborators_def)

lemma ol_dict_example:
  "ol_prior_states_dict example_collaborators ''2023-2024'' season_db =
     [(''H'', \<lparr>missing_prior_states = \<lparr>home = True, away = False\<rparr>\<rparr>),
      (''C'', \<lparr>missing_prior_states = \<lparr>home = False, away = False\<rparr>\<rparr>)]"
  by (simp add: ol_prior_states_dict_def ol_work_example example_collaborators_def)

lemma batch_example:
  "games_update_data
     [(''H'', \<lparr>missing_prior_states = \<lparr>home = True, away = False\<rparr>\<rparr>),
      (''C'', \<lparr>missing_prior_states = \<lparr>home = False, away = False\<rparr>\<rparr>)]
   = [(0, ''H''), (1, ''C'')]"
  by (simp add: games_update_data_def pre_game_data_finalized_flag_def py_int_def)

lemma write_example:
  "write_games_update_data None [(0, ''H''), (1, ''C'')] season_db =
     (None, season_db\<lparr>Games := [gA, gB, gC\<lparr>pre_game_data_finalized := 1\<rparr>, gH]\<rparr>)"
  by (simp add: write_no_fault update_games_def update_game_def example_defs)

lemma save_example: "save_feature_sets example_collaborators feature_sets db = other_tables db"
  by (simp add: example_collaborators_def)

lemma season_db_other: "season_db\<lparr>other_tables := u\<rparr> = season_db"
  by (simp add: season_db_def)

lemma du_run_example:
  "du_update_pre_game_data example_collaborators None ''2023-2024'' season_db =
     (None, season_db\<lparr>Games := [gA, gB, gC\<lparr>pre_game_data_finalized := 1\<rparr>, gH]\<rparr>)"
  by (simp add: du_update_pre_game_data_def du_dict_example batch_example write_example
      save_example season_db_other)

lemma ol_run_example:
  "ol_update_pre_game_data example_collaborators None ''2023-2024'' season_db =
     (None, season_db\<lparr>Games := [gA, gB, gC\<lparr>pre_game_data_finalized := 1\<rparr>, gH]\<rparr>)"
  by (simp add: ol_update_pre_game_data_def ol_dict_example batch_example write_example
      save_example season_db_other)

lemma season_games: "Games season_db = [gA, gB, gC, gH]"
  by (simp add: season_db_def)

lemma game_ids: "game_id gA = ''A''" "game_id gB = ''B''" "game_id gC = ''C''" "game_id gH = ''H''"
  by (simp_all add: example_defs)

lemma du_work_set_flag_0:
  "gid \<in> set (du_get_games_with_incomplete_pre_game_data s db) \<Longrightarrow>
     \<exists>g \<in> set (Games db). game_id g = gid \<and> pre_game_data_finalized g = 0"
  unfolding set_du_pre by auto

lemma ol_work_set_flag_0:
  "gid \<in> set (ol_get_games_with_incomplete_pre_game_data s db) \<Longrightarrow>
     \<exists>g \<in> set (Games db). game_id g = gid \<and> pre_game_data_finalized g = 0"
  unfolding set_ol_pre by auto

lemma finalized_row_kept:
  assumes d: "distinct (map game_id (Games db))"
    and keys: "\<And>gid. gid \<in> fst ` set prior_states_dict \<Longrightarrow>
                 \<exists>g \<in> set (Games db). game_id g = gid \<and> pre_game_data_finalized g = 0"
    and rows: "list_all2 (\<lambda>g g'. g' = g
       \<or> (\<exists>sts. (game_id g, sts) \<in> set prior_states_dict
               \<and> g' = g\<lparr>pre_game_data_finalized := pre_game_data_finalized_flag sts\<rparr>))
       (Games db) games'"
  shows "list_all2 (\<lambda>g g'. pre_game_data_finalized g = 1 \<longrightarrow>
                      pre_game_data_finalized g' = 1 \<and> g' = g) (Games db) games'"
proof (rule list.rel_mono_strong [OF rows], intro impI)
  fix g g'
  assume g: "g \<in> set (Games db)" and one: "pre_game_data_finalized g = 1"
    and row: "g' = g \<or> (\<exists>sts. (game_id g, sts) \<in> set prior_states_dict
               \<and> g' = g\<lparr>pre_game_data_finalized := pre_game_data_finalized_flag sts\<rparr>)"
  have "game_id g \<notin> fst ` set prior_states_dict"
  proof
    assume "game_id g \<in> fst ` set prior_states_dict"
    from keys [OF this] obtain g0 where g0: "g0 \<in> set (Games db)" "game_id g0 = game_id g"
      and zero: "pre_game_data_finalized g0 = 0" by blast
    from inj_game_id [OF d g g0] have "g0 = g" .
    with zero one show False by simp
  qed
  with row have "g' = g" by force
  with one show "pre_game_data_finalized g' = 1 \<and> g' = g" by simp
qed

section \<open>Facts about the orchestrator\<close>

lemma call_stage_ok:
  "raised r = None \<Longrightarrow> exec c (world r) = Inr w' \<Longrightarrow>
     call_stage exec c r = r\<lparr>world := w', calls := calls r @ [c]\<rparr>"
  by (simp add: call_stage_def)

lemma call_stage_raises:
  "raised r = None \<Longrightarrow> exec c (world r) = Inl e \<Longrightarrow>
     call_stage exec c r = r\<lparr>calls := calls r @ [c], raised := Some e\<rparr>"
  by (simp add: call_stage_def)

lemma call_stage_skipped: "raised r \<noteq> None \<Longrightarrow> call_stage exec c r = r"
  by (auto simp: call_stage_def)

lemma calls_call_stage:
  "calls (call_stage exec c r) = (if raised r = None then calls r @ [c] else calls r)"
  by (auto simp: call_stage_def split: option.splits sum.splits)


lemma prefix_calls_call_stage:
  "prefix (calls r) xs \<Longrightarrow> (raised r = None \<Longrightarrow> calls r @ [c] = ys) \<Longrightarrow> prefix xs ys
     \<Longrightarrow> prefix (calls (call_stage exec c r)) ys"
  by (auto simp: calls_call_stage)




lemma schedule_raises:
  assumes "exec (Update_schedule s) w = Inl e"
  shows "calls (du_update_database exec s predictor path (start w)) = [Update_schedule s]"
    and "calls (ol_update_database exec s predictor path (start w)) = [Update_schedule s]"
  using assms
  by (simp_all add: du_update_database_def ol_update_database_def Let_def call_stage_def
      start_def)


section \<open>The pre-game-data work set (claim C1)\<close>

text \<open>
  Claim C1 as it is written fails for \<open>database_updater.py\<close>: the pre-season game
  \<open>pE\<close> has not started, its pre-game data is not finalized, no earlier game of the
  season shares a team with it, and still the query of that module leaves it out, because
  the query also asks for a season type of Regular Season or Post Season.
\<close>

theorem incomplete_pre_game_data_pre_season_counterexample:
  "pE \<in> set (Games pre_season_db) \<and> distinct (map game_id (Games pre_season_db))
   \<and> status pE = ''Not Started'' \<and> season pE = ''2023-2024'' \<and> pre_game_data_finalized pE = 0
   \<and> \<not> (\<exists>g2 \<in> set (Games pre_season_db). g2 \<noteq> pE \<and> season g2 = ''2023-2024''
           \<and> date_time_est g2 < date_time_est pE
           \<and> (home_team g2 = home_team pE \<or> away_team g2 = home_team pE
              \<or> home_team g2 = away_team pE \<or> away_team g2 = away_team pE)
           \<and> game_data_finalized g2 = 0)
   \<and> game_id pE \<notin> set (du_get_games_with_incomplete_pre_game_data ''2023-2024'' pre_season_db)"
  by (simp add: du_get_games_with_incomplete_pre_game_data_def sql_union_def example_defs)

text \<open>
  Claim C1, amended. Let \<open>G\<close> be a game of the queried season that has not started and
  whose \<open>pre_game_data_finalized\<close> is 0, in a table whose identifiers are unique. In
  \<open>on_load.py\<close>, \<open>G\<close> is in the work set of \<open>get_games_with_incomplete_pre_game_data\<close>
  exactly when no other game of the season, scheduled strictly earlier and with one of the
  two teams of \<open>G\<close> on either side, has \<open>game_data_finalized = 0\<close>. In
  \<open>database_updater.py\<close> it is in the work set exactly when, in addition, its season
  type is Regular Season or Post Season.
\<close>

theorem incomplete_pre_game_data_not_started:
  assumes "distinct (map game_id (Games db))" and "G \<in> set (Games db)"
    and "status G = ''Not Started''" and "season G = s" and "pre_game_data_finalized G = 0"
  shows "(game_id G \<in> set (ol_get_games_with_incomplete_pre_game_data s db) \<longleftrightarrow>
            \<not> (\<exists>g2 \<in> set (Games db). g2 \<noteq> G \<and> season g2 = s
                  \<and> date_time_est g2 < date_time_est G
                  \<and> (home_team g2 = home_team G \<or> away_team g2 = home_team G
                     \<or> home_team g2 = away_team G \<or> away_team g2 = away_team G)
                  \<and> game_data_finalized g2 = 0))
       \<and> (game_id G \<in> set (du_get_games_with_incomplete_pre_game_data s db) \<longleftrightarrow>
            (season_type G = ''Regular Season'' \<or> season_type G = ''Post Season'')
            \<and> \<not> (\<exists>g2 \<in> set (Games db). g2 \<noteq> G \<and> season g2 = s
                  \<and> date_time_est g2 < date_time_est G
                  \<and> (home_team g2 = home_team G \<or> away_team g2 = home_team G
                     \<or> home_team g2 = away_team G \<or> away_team g2 = away_team G)
                  \<and> game_data_finalized g2 = 0))"
proof -
  let ?blocked = "\<exists>g2 \<in> set (Games db). g2 \<noteq> G \<and> season g2 = s
                  \<and> date_time_est g2 < date_time_est G
                  \<and> (home_team g2 = home_team G \<or> away_team g2 = home_team G
                     \<or> home_team g2 = away_team G \<or> away_team g2 = away_team G)
                  \<and> game_data_finalized g2 = 0"
  have pending: "(\<exists>g2 \<in> set (Games db). prior_game_pending s G g2) \<longleftrightarrow> ?blocked"
    unfolding prior_game_pending_def by (rule bex_cong [OF refl]) auto
  have same: "g' = G" if "g' \<in> set (Games db)" "game_id g' = game_id G" for g'
    using inj_game_id [OF assms(1) assms(2) that] .
  have ol: "game_id G \<in> set (ol_get_games_with_incomplete_pre_game_data s db) \<longleftrightarrow> \<not> ?blocked"
  proof
    assume "game_id G \<in> set (ol_get_games_with_incomplete_pre_game_data s db)"
    then obtain g' where g': "g' \<in> set (Games db)" "game_id g' = game_id G"
      and sel: "status g' = ''Completed'' \<or> status g' = ''In Progress''
                \<or> status g' = ''Not Started'' \<and> \<not> (\<exists>g2 \<in> set (Games db). prior_game_pending s g' g2)"
      unfolding set_ol_pre by auto
    from same [OF g'] sel assms(3) have "\<not> (\<exists>g2 \<in> set (Games db). prior_game_pending s G g2)"
      by simp
    then show "\<not> ?blocked" by (simp add: pending)
  next
    assume "\<not> ?blocked"
    then have "\<not> (\<exists>g2 \<in> set (Games db). prior_game_pending s G g2)" by (simp add: pending)
    with assms show "game_id G \<in> set (ol_get_games_with_incomplete_pre_game_data s db)"
      unfolding set_ol_pre by blast
  qed
  have du: "game_id G \<in> set (du_get_games_with_incomplete_pre_game_data s db) \<longleftrightarrow>
            (season_type G = ''Regular Season'' \<or> season_type G = ''Post Season'') \<and> \<not> ?blocked"
  proof
    assume "game_id G \<in> set (du_get_games_with_incomplete_pre_game_data s db)"
    then obtain g' where g': "g' \<in> set (Games db)" "game_id g' = game_id G"
      and st: "season_type g' = ''Regular Season'' \<or> season_type g' = ''Post Season''"
      and sel: "status g' = ''Completed'' \<or> status g' = ''In Progress''
                \<or> status g' = ''Not Started'' \<and> \<not> (\<exists>g2 \<in> set (Games db). prior_game_pending s g' g2)"
      unfolding set_du_pre by auto
    from same [OF g'] sel st assms(3)
    have "(season_type G = ''Regular Season'' \<or> season_type G = ''Post Season'')
          \<and> \<not> (\<exists>g2 \<in> set (Games db). prior_game_pending s G g2)"
      by simp
    then show "(season_type G = ''Regular Season'' \<or> season_type G = ''Post Season'') \<and> \<not> ?blocked"
      by (simp add: pending)
  next
    assume "(season_type G = ''Regular Season'' \<or> season_type G = ''Post Season'') \<and> \<not> ?blocked"
    then have "(season_type G = ''Regular Season'' \<or> season_type G = ''Post Season'')"
      and "\<not> (\<exists>g2 \<in> set (Games db). prior_game_pending s G g2)" by (simp_all add: pending)
    with assms show "game_id G \<in> set (du_get_games_with_incomplete_pre_game_data s db)"
      unfolding set_du_pre by blast
  qed
  from ol du show ?thesis by (rule conjI)
qed

text \<open>
  In the small season, \<open>gB\<close> is held back by the earlier \<open>gA\<close> (both play BOS, and
  the game data of \<open>gA\<close> is not finalized), and \<open>gC\<close> is in the work set.
\<close>

theorem incomplete_pre_game_data_not_started_witness:
  "distinct (map game_id (Games season_db)) \<and> gB \<in> set (Games season_db) \<and> gC \<in> set (Games season_db)
   \<and> status gB = ''Not Started'' \<and> season gB = ''2023-2024'' \<and> pre_game_data_finalized gB = 0
   \<and> status gC = ''Not Started'' \<and> season gC = ''2023-2024'' \<and> pre_game_data_finalized gC = 0
   \<and> game_id gB \<notin> set (ol_get_games_with_incomplete_pre_game_data ''2023-2024'' season_db)
   \<and> game_id gB \<notin> set (du_get_games_with_incomplete_pre_game_data ''2023-2024'' season_db)
   \<and> game_id gC \<in> set (ol_get_games_with_incomplete_pre_game_data ''2023-2024'' season_db)
   \<and> game_id gC \<in> set (du_get_games_with_incomplete_pre_game_data ''2023-2024'' season_db)"
proof -
  have d: "distinct (map game_id (Games season_db))" by (simp add: example_defs)
  have b: "gB \<in> set (Games season_db)" "status gB = ''Not Started''" "season gB = ''2023-2024''"
    "pre_game_data_finalized gB = 0"
    by (simp_all add: example_defs)
  have c: "gC \<in> set (Games season_db)" "status gC = ''Not Started''" "season gC = ''2023-2024''"
    "pre_game_data_finalized gC = 0"
    by (simp_all add: example_defs)
  have "game_id gB \<notin> set (ol_get_games_with_incomplete_pre_game_data ''2023-2024'' season_db)
      \<and> game_id gB \<notin> set (du_get_games_with_incomplete_pre_game_data ''2023-2024'' season_db)"
    using incomplete_pre_game_data_not_started [OF d b] by (simp add: example_defs)
  moreover
  have "game_id gC \<in> set (ol_get_games_with_incomplete_pre_game_data ''2023-2024'' season_db)
      \<and> game_id gC \<in> set (du_get_games_with_incomplete_pre_game_data ''2023-2024'' season_db)"
    using incomplete_pre_game_data_not_started [OF d c] by (simp add: example_defs)
  ultimately show ?thesis using d b c by simp
qed

section \<open>The game-data work set (claim C3)\<close>

text \<open>
  Claim C3 as it is written fails for \<open>database_updater.py\<close>: the pre-season game
  \<open>pD\<close> is a completed game of the season whose game data is not finalized, and the
  query of that module does not return it.
\<close>

theorem game_state_update_pre_season_counterexample:
  "pD \<in> set (Games pre_season_db) \<and> season pD = ''2023-2024'' \<and> status pD = ''Completed''
   \<and> game_data_finalized pD = 0
   \<and> game_id pD \<notin> set (du_get_games_needing_game_state_update ''2023-2024'' pre_season_db)"
  by (simp add: du_get_games_needing_game_state_update_def example_defs)

text \<open>
  Claim C3, amended. The work set of \<open>get_games_needing_game_state_update\<close> holds
  exactly the identifiers of the games of the season that are Completed or In Progress
  with \<open>game_data_finalized\<close> false, and, in \<open>database_updater.py\<close>, whose season
  type is Regular Season or Post Season. When identifiers are unique, no game that has
  not started is in the work set of either module.
\<close>

theorem game_state_update_work_set:
  "set (du_get_games_needing_game_state_update s db) =
     game_id ` {g \<in> set (Games db). season g = s
                  \<and> (season_type g = ''Regular Season'' \<or> season_type g = ''Post Season'')
                  \<and> (status g = ''Completed'' \<or> status g = ''In Progress'')
                  \<and> game_data_finalized g = 0}
   \<and> set (ol_get_games_needing_game_state_update s db) =
     game_id ` {g \<in> set (Games db). season g = s
                  \<and> (status g = ''Completed'' \<or> status g = ''In Progress'')
                  \<and> game_data_finalized g = 0}
   \<and> (distinct (map game_id (Games db)) \<longrightarrow>
        (\<forall>g \<in> set (Games db). status g = ''Not Started'' \<longrightarrow>
           game_id g \<notin> set (du_get_games_needing_game_state_update s db)
           \<and> game_id g \<notin> set (ol_get_games_needing_game_state_update s db)))"
proof (intro conjI impI ballI)
  show "set (du_get_games_needing_game_state_update s db) =
     game_id ` {g \<in> set (Games db). season g = s
                  \<and> (season_type g = ''Regular Season'' \<or> season_type g = ''Post Season'')
                  \<and> (status g = ''Completed'' \<or> status g = ''In Progress'')
                  \<and> game_data_finalized g = 0}"
    by (rule set_du_state)
  show "set (ol_get_games_needing_game_state_update s db) =
     game_id ` {g \<in> set (Games db). season g = s
                  \<and> (status g = ''Completed'' \<or> status g = ''In Progress'')
                  \<and> game_data_finalized g = 0}"
    by (rule set_ol_state)
next
  fix g
  assume d: "distinct (map game_id (Games db))" and g: "g \<in> set (Games db)"
    and ns: "status g = ''Not Started''"
  have same: "g' = g" if "g' \<in> set (Games db)" "game_id g' = game_id g" for g'
    using inj_game_id [OF d g that] .
  show "game_id g \<notin> set (du_get_games_needing_game_state_update s db)"
  proof
    assume "game_id g \<in> set (du_get_games_needing_game_state_update s db)"
    then obtain g' where g': "g' \<in> set (Games db)" "game_id g' = game_id g"
      and st: "status g' = ''Completed'' \<or> status g' = ''In Progress''"
      unfolding set_du_state by auto
    from same [OF g'] st ns show False by simp
  qed
  show "game_id g \<notin> set (ol_get_games_needing_game_state_update s db)"
  proof
    assume "game_id g \<in> set (ol_get_games_needing_game_state_update s db)"
    then obtain g' where g': "g' \<in> set (Games db)" "game_id g' = game_id g"
      and st: "status g' = ''Completed'' \<or> status g' = ''In Progress''"
      unfolding set_ol_state by auto
    from same [OF g'] st ns show False by simp
  qed
qed

text \<open>In the small season only \<open>gA\<close> waits for game data; \<open>gB\<close> has not started.\<close>

theorem game_state_update_work_set_witness:
  "distinct (map game_id (Games season_db)) \<and> gB \<in> set (Games season_db)
   \<and> status gB = ''Not Started''
   \<and> game_id gB \<notin> set (du_get_games_needing_game_state_update ''2023-2024'' season_db)
   \<and> game_id gB \<notin> set (ol_get_games_needing_game_state_update ''2023-2024'' season_db)
   \<and> set (du_get_games_needing_game_state_update ''2023-2024'' season_db) = {''A''}
   \<and> set (ol_get_games_needing_game_state_update ''2023-2024'' season_db) = {''A''}"
proof -
  have d: "distinct (map game_id (Games season_db))" by (simp add: example_defs)
  have g: "gB \<in> set (Games season_db)" by (simp add: example_defs)
  have ns: "status gB = ''Not Started''" by (simp add: example_defs)
  note ws = game_state_update_work_set [of "''2023-2024''" season_db]
  from ws d g ns
  have "game_id gB \<notin> set (du_get_games_needing_game_state_update ''2023-2024'' season_db)
      \<and> game_id gB \<notin> set (ol_get_games_needing_game_state_update ''2023-2024'' season_db)"
    by blast
  moreover
  have "set (du_get_games_needing_game_state_update ''2023-2024'' season_db) = {''A''}"
    by (simp add: du_get_games_needing_game_state_update_def example_defs)
  moreover
  have "set (ol_get_games_needing_game_state_update ''2023-2024'' season_db) = {''A''}"
    by (simp add: ol_get_games_needing_game_state_update_def example_defs)
  ultimately show ?thesis using d g ns by simp
qed

section \<open>The prediction work set (claim C4)\<close>

text \<open>
  Claim C4 as it is written fails for \<open>database_updater.py\<close>: the pre-season game
  \<open>pF\<close> of the queried season has \<open>pre_game_data_finalized = 1\<close> and no prediction
  by the predictor Random, and the query of that module does not return it.
\<close>

theorem prediction_update_pre_season_counterexample:
  "pF \<in> set (Games pre_season_db) \<and> season pF = ''2023-2024'' \<and> pre_game_data_finalized pF = 1
   \<and> \<not> (\<exists>r \<in> set (Predictions pre_season_db). p_game_id r = game_id pF \<and> p_predictor r = ''Random'')
   \<and> game_id pF \<notin> set (du_get_games_for_prediction_update ''2023-2024'' ''Random'' pre_season_db)"
  by (simp add: du_get_games_for_prediction_update_def left_join_def example_defs)

text \<open>
  Claim C4, amended. For every season and predictor name, a game of a table with unique
  identifiers appears in the work set of \<open>get_games_for_prediction_update\<close> exactly
  when it is a game of that season, its \<open>pre_game_data_finalized\<close> is 1, no prediction
  row exists for the pair of its identifier and the predictor name, and, in
  \<open>database_updater.py\<close>, its season type is Regular Season or Post Season. For both
  modules the work set is taken as the identifiers that the returned rows carry.
\<close>

theorem prediction_update_work_set:
  assumes "distinct (map game_id (Games db))" and "g \<in> set (Games db)"
  shows "(game_id g \<in> set (du_get_games_for_prediction_update s p db) \<longleftrightarrow>
            season g = s
            \<and> (season_type g = ''Regular Season'' \<or> season_type g = ''Post Season'')
            \<and> pre_game_data_finalized g = 1
            \<and> \<not> (\<exists>r \<in> set (Predictions db). p_game_id r = game_id g \<and> p_predictor r = p))
       \<and> (game_id g \<in> item0 ` set (ol_get_games_for_prediction_update s p db) \<longleftrightarrow>
            season g = s
            \<and> pre_game_data_finalized g = 1
            \<and> \<not> (\<exists>r \<in> set (Predictions db). p_game_id r = game_id g \<and> p_predictor r = p))"
proof -
  have same: "g' = g" if "g' \<in> set (Games db)" "game_id g' = game_id g" for g'
    using inj_game_id [OF assms that] .
  have du: "game_id g \<in> set (du_get_games_for_prediction_update s p db) \<longleftrightarrow>
            season g = s
            \<and> (season_type g = ''Regular Season'' \<or> season_type g = ''Post Season'')
            \<and> pre_game_data_finalized g = 1
            \<and> \<not> (\<exists>r \<in> set (Predictions db). p_game_id r = game_id g \<and> p_predictor r = p)"
    unfolding set_du_pred using assms(2) by (auto dest: same)
  have ids: "item0 ` set (ol_get_games_for_prediction_update s p db) =
      game_id ` {g \<in> set (Games db). (season g = s \<and> pre_game_data_finalized g = 1)
          \<and> \<not> (\<exists>r \<in> set (Predictions db). game_id g = p_game_id r \<and> p_predictor r = p)}"
    unfolding set_ol_pred by (simp add: image_image)
  have ol: "game_id g \<in> item0 ` set (ol_get_games_for_prediction_update s p db) \<longleftrightarrow>
            season g = s
            \<and> pre_game_data_finalized g = 1
            \<and> \<not> (\<exists>r \<in> set (Predictions db). p_game_id r = game_id g \<and> p_predictor r = p)"
    unfolding ids using assms(2) by (auto dest: same)
  from du ol show ?thesis by (rule conjI)
qed

text \<open>
  In the small season \<open>gA\<close> lacks a prediction by Random and has one by Baseline.
\<close>

theorem prediction_update_work_set_witness:
  "distinct (map game_id (Games season_db)) \<and> gA \<in> set (Games season_db)
   \<and> game_id gA \<in> set (du_get_games_for_prediction_update ''2023-2024'' ''Random'' season_db)
   \<and> game_id gA \<in> item0 ` set (ol_get_games_for_prediction_update ''2023-2024'' ''Random'' season_db)
   \<and> game_id gA \<notin> set (du_get_games_for_prediction_update ''2023-2024'' ''Baseline'' season_db)
   \<and> game_id gA \<notin> item0 ` set (ol_get_games_for_prediction_update ''2023-2024'' ''Baseline'' season_db)"
proof -
  have d: "distinct (map game_id (Games season_db))" by (simp add: example_defs)
  have a: "gA \<in> set (Games season_db)" by (simp add: example_defs)
  have "game_id gA \<in> set (du_get_games_for_prediction_update ''2023-2024'' ''Random'' season_db)
      \<and> game_id gA \<in> item0 ` set (ol_get_games_for_prediction_update ''2023-2024'' ''Random'' season_db)"
    using prediction_update_work_set [OF d a, of "''2023-2024''" "''Random''"] by (simp add: example_defs)
  moreover
  have "game_id gA \<notin> set (du_get_games_for_prediction_update ''2023-2024'' ''Baseline'' season_db)
      \<and> game_id gA \<notin> item0 ` set (ol_get_games_for_prediction_update ''2023-2024'' ''Baseline'' season_db)"
    using prediction_update_work_set [OF d a, of "''2023-2024''" "''Baseline''"] by (simp add: example_defs)
  ultimately show ?thesis using d a by simp
qed

section \<open>The readiness flag (claim C2)\<close>

text \<open>
  Claim C2. For every game of the loaded prior-states dictionary the loop appends the
  pair of the game's flag and its identifier, where the flag is 1 when neither the home
  nor the away prior state is missing and 0 otherwise; the four combinations of the two
  booleans are listed.
\<close>

theorem readiness_flag_correct:
  "games_update_data prior_states_dict =
     map (\<lambda>(gid, sts). (if \<not> home (missing_prior_states sts) \<and> \<not> away (missing_prior_states sts)
                          then 1 else 0, gid)) prior_states_dict
   \<and> pre_game_data_finalized_flag \<lparr>missing_prior_states = \<lparr>home = False, away = False\<rparr>\<rparr> = 1
   \<and> pre_game_data_finalized_flag \<lparr>missing_prior_states = \<lparr>home = False, away = True\<rparr>\<rparr> = 0
   \<and> pre_game_data_finalized_flag \<lparr>missing_prior_states = \<lparr>home = True, away = False\<rparr>\<rparr> = 0
   \<and> pre_game_data_finalized_flag \<lparr>missing_prior_states = \<lparr>home = True, away = True\<rparr>\<rparr> = 0"
proof -
  have "pre_game_data_finalized_flag sts =
          (if \<not> home (missing_prior_states sts) \<and> \<not> away (missing_prior_states sts) then 1 else 0)"
    for sts
    by (simp add: pre_game_data_finalized_flag_def py_int_def)
  then have "games_update_data prior_states_dict =
     map (\<lambda>(gid, sts). (if \<not> home (missing_prior_states sts) \<and> \<not> away (missing_prior_states sts)
                          then 1 else 0, gid)) prior_states_dict"
    by (simp add: games_update_data_map)
  then show ?thesis by (simp add: pre_game_data_finalized_flag_def py_int_def)
qed

text \<open>A dictionary of two games, the first with its home side missing.\<close>

theorem readiness_flag_correct_witness:
  "games_update_data
     [(''H'', \<lparr>missing_prior_states = \<lparr>home = True, away = False\<rparr>\<rparr>),
      (''C'', \<lparr>missing_prior_states = \<lparr>home = False, away = False\<rparr>\<rparr>)]
   = [(0, ''H''), (1, ''C'')]"
  using readiness_flag_correct [of "[(''H'', \<lparr>missing_prior_states = \<lparr>home = True, away = False\<rparr>\<rparr>),
      (''C'', \<lparr>missing_prior_states = \<lparr>home = False, away = False\<rparr>\<rparr>)]"]
  by simp

section \<open>The two modules side by side (claim C9)\<close>

text \<open>
  Claim C9 says that, on a season all of whose games are regular-season or post-season
  games, each work-set function of \<open>database_updater.py\<close> returns what its
  counterpart of \<open>on_load.py\<close> returns. That holds for the first two functions
  (\<open>work_sets_agree\<close> above). \<open>get_games_for_prediction_update\<close> of
  \<open>on_load.py\<close>, however, returns the fetched rows, 1-tuples, where its docstring
  promises a list of identifiers and where \<open>database_updater.py\<close> unpacks them: on
  the small season the one returns the list holding \<open>(''A'',)\<close> and the other the list
  holding \<open>''A''\<close>.
\<close>

theorem prediction_update_results_differ:
  "list_all (\<lambda>g. season_type g \<in> {''Regular Season'', ''Post Season''}) (Games season_db)
   \<and> du_get_games_for_prediction_update ''2023-2024'' ''Random'' season_db = [''A'']
   \<and> ol_get_games_for_prediction_update ''2023-2024'' ''Random'' season_db = [Tuple1 ''A'']
   \<and> py_of_ids (du_get_games_for_prediction_update ''2023-2024'' ''Random'' season_db)
       = PyList [PyStr ''A'']
   \<and> py_of_rows (ol_get_games_for_prediction_update ''2023-2024'' ''Random'' season_db)
       = PyList [PyTuple [PyStr ''A'']]
   \<and> py_of_ids (du_get_games_for_prediction_update ''2023-2024'' ''Random'' season_db)
       \<noteq> py_of_rows (ol_get_games_for_prediction_update ''2023-2024'' ''Random'' season_db)"
  by (simp add: du_get_games_for_prediction_update_def ol_get_games_for_prediction_update_def
      left_join_def py_of_ids_def py_of_rows_def example_defs)

section \<open>The batch write (claim C7)\<close>

text \<open>
  Claim C7. The pairs are written in one transaction. When the storage fails after
  \<open>k\<close> of the \<open>N\<close> statements of a batch, \<open>k < N\<close>, the connection holds the
  first \<open>k\<close> updates in its working copy, the exception leaves the \<open>with\<close> block, the
  transaction is rolled back, and the persisted database is the one before the write.
  When nothing fails, all \<open>N\<close> updates are persisted. Whatever the storage does, the
  persisted Games table is the old one or the one with the whole batch applied.
\<close>

theorem flag_write_all_or_nothing:
  "(k < length batch \<longrightarrow>
      write_games_update_data (Some k) batch db = (Some OperationalError, db)
      \<and> working (snd (executemany (Some k) batch (connect (Games db))))
          = fold update_games (take k batch) (Games db))
   \<and> write_games_update_data None batch db
       = (None, db\<lparr>Games := fold update_games batch (Games db)\<rparr>)
   \<and> (Games (snd (write_games_update_data fault batch db)) = Games db
      \<or> Games (snd (write_games_update_data fault batch db)) = fold update_games batch (Games db))"
proof (intro conjI impI)
  assume "k < length batch"
  then show "write_games_update_data (Some k) batch db = (Some OperationalError, db)"
    by (rule write_fault)
  from \<open>k < length batch\<close>
  show "working (snd (executemany (Some k) batch (connect (Games db))))
          = fold update_games (take k batch) (Games db)"
    by (simp add: executemany_fault connect_def)
next
  show "write_games_update_data None batch db
       = (None, db\<lparr>Games := fold update_games batch (Games db)\<rparr>)"
    by (rule write_no_fault)
  show "Games (snd (write_games_update_data fault batch db)) = Games db
      \<or> Games (snd (write_games_update_data fault batch db)) = fold update_games batch (Games db)"
    using write_cases [of fault batch db] by auto
qed

text \<open>
  The batch of the small season, with the storage failing at its second statement, and
  with a storage that does not fail.
\<close>

theorem flag_write_all_or_nothing_witness:
  "(1::nat) < length [(0::int, ''H''), (1, ''C'')]
   \<and> write_games_update_data (Some 1) [(0, ''H''), (1, ''C'')] season_db = (Some OperationalError, season_db)
   \<and> working (snd (executemany (Some 1) [(0, ''H''), (1, ''C'')] (connect (Games season_db))))
        = [gA, gB, gC, gH]
   \<and> write_games_update_data None [(0, ''H''), (1, ''C'')] season_db
        = (None, season_db\<lparr>Games := [gA, gB, gC\<lparr>pre_game_data_finalized := 1\<rparr>, gH]\<rparr>)"
proof -
  have k: "(1::nat) < length [(0::int, ''H''), (1, ''C'')]" by simp
  have f: "fold update_games [(0, ''H''), (1, ''C'')] (Games season_db)
             = [gA, gB, gC\<lparr>pre_game_data_finalized := 1\<rparr>, gH]"
    by (simp add: update_games_def update_game_def example_defs)
  have t: "fold update_games (take 1 [(0, ''H''), (1, ''C'')]) (Games season_db) = [gA, gB, gC, gH]"
    by (simp add: update_games_def update_game_def example_defs)
  from flag_write_all_or_nothing [of 1 "[(0, ''H''), (1, ''C'')]" season_db None] k
  show ?thesis unfolding f t by simp
qed

section \<open>Where a flag of 1 comes from (claim C5)\<close>

text \<open>
  Claim C5 (invariant I1). After a run of \<open>update_pre_game_data\<close>, of either module
  and whatever the storage does, the Games table has the same rows in the same places,
  and every game whose \<open>pre_game_data_finalized\<close> is 1 had the flag at 1 before the
  run or has an entry in the loaded prior-states dictionary whose home and away
  \<open>missing_prior_states\<close> are both false.
\<close>

theorem flag_set_only_by_readiness:
  "list_all2 (\<lambda>g g'. game_id g' = game_id g
        \<and> (pre_game_data_finalized g' = 1 \<longrightarrow>
             pre_game_data_finalized g = 1
             \<or> (\<exists>sts. (game_id g, sts) \<in> set (du_prior_states_dict co s db)
                   \<and> \<not> home (missing_prior_states sts) \<and> \<not> away (missing_prior_states sts))))
     (Games db) (Games (snd (du_update_pre_game_data co fault s db)))
   \<and> list_all2 (\<lambda>g g'. game_id g' = game_id g
        \<and> (pre_game_data_finalized g' = 1 \<longrightarrow>
             pre_game_data_finalized g = 1
             \<or> (\<exists>sts. (game_id g, sts) \<in> set (ol_prior_states_dict co s db)
                   \<and> \<not> home (missing_prior_states sts) \<and> \<not> away (missing_prior_states sts))))
     (Games db) (Games (snd (ol_update_pre_game_data co fault s db)))"
proof
  show "list_all2 (\<lambda>g g'. game_id g' = game_id g
        \<and> (pre_game_data_finalized g' = 1 \<longrightarrow>
             pre_game_data_finalized g = 1
             \<or> (\<exists>sts. (game_id g, sts) \<in> set (du_prior_states_dict co s db)
                   \<and> \<not> home (missing_prior_states sts) \<and> \<not> away (missing_prior_states sts))))
     (Games db) (Games (snd (du_update_pre_game_data co fault s db)))"
    by (rule list_all2_mono [OF du_update_rows]) (auto simp: flag_1)
  show "list_all2 (\<lambda>g g'. game_id g' = game_id g
        \<and> (pre_game_data_finalized g' = 1 \<longrightarrow>
             pre_game_data_finalized g = 1
             \<or> (\<exists>sts. (game_id g, sts) \<in> set (ol_prior_states_dict co s db)
                   \<and> \<not> home (missing_prior_states sts) \<and> \<not> away (missing_prior_states sts))))
     (Games db) (Games (snd (ol_update_pre_game_data co fault s db)))"
    by (rule list_all2_mono [OF ol_update_rows]) (auto simp: flag_1)
qed

text \<open>
  In the run on the small season the third row, \<open>gC\<close>, goes from 0 to 1, and the
  dictionary holds it with no side missing.
\<close>

theorem flag_set_only_by_readiness_witness:
  "pre_game_data_finalized
     (Games (snd (du_update_pre_game_data example_collaborators None ''2023-2024'' season_db)) ! 2) = 1
   \<and> pre_game_data_finalized (Games season_db ! 2) = 0
   \<and> (\<exists>sts. (game_id (Games season_db ! 2), sts)
               \<in> set (du_prior_states_dict example_collaborators ''2023-2024'' season_db)
            \<and> \<not> home (missing_prior_states sts) \<and> \<not> away (missing_prior_states sts))"
proof -
  have after: "pre_game_data_finalized
     (Games (snd (du_update_pre_game_data example_collaborators None ''2023-2024'' season_db)) ! 2) = 1"
    by (simp add: du_run_example)
  have before: "pre_game_data_finalized (Games season_db ! 2) = 0"
    by (simp add: example_defs)
  have len: "2 < length (Games season_db)" by (simp add: example_defs)
  from flag_set_only_by_readiness [of example_collaborators "''2023-2024''" season_db None]
  have "list_all2 (\<lambda>g g'. game_id g' = game_id g
        \<and> (pre_game_data_finalized g' = 1 \<longrightarrow>
             pre_game_data_finalized g = 1
             \<or> (\<exists>sts. (game_id g, sts) \<in> set (du_prior_states_dict example_collaborators ''2023-2024'' season_db)
                   \<and> \<not> home (missing_prior_states sts) \<and> \<not> away (missing_prior_states sts))))
     (Games season_db)
     (Games (snd (du_update_pre_game_data example_collaborators None ''2023-2024'' season_db)))"
    by (rule conjunct1)
  from list_all2_nthD [OF this len] after before
  have "\<exists>sts. (game_id (Games season_db ! 2), sts)
               \<in> set (du_prior_states_dict example_collaborators ''2023-2024'' season_db)
            \<and> \<not> home (missing_prior_states sts) \<and> \<not> away (missing_prior_states sts)"
    by simp
  with after before show ?thesis by simp
qed

section \<open>What the stage leaves alone (claim C10)\<close>

text \<open>
  Claim C10. A run of \<open>update_pre_game_data\<close>, of either module, changes nothing of
  a row of Games but its \<open>pre_game_data_finalized\<close>, changes no row whose identifier
  is not a key of the loaded prior-states dictionary, and leaves the Predictions table
  as it was.
\<close>

theorem update_pre_game_data_frame:
  "list_all2 (\<lambda>g g'. g' = g\<lparr>pre_game_data_finalized := pre_game_data_finalized g'\<rparr>
        \<and> (game_id g \<notin> fst ` set (du_prior_states_dict co s db) \<longrightarrow> g' = g))
     (Games db) (Games (snd (du_update_pre_game_data co fault s db)))
   \<and> Predictions (snd (du_update_pre_game_data co fault s db)) = Predictions db
   \<and> list_all2 (\<lambda>g g'. g' = g\<lparr>pre_game_data_finalized := pre_game_data_finalized g'\<rparr>
        \<and> (game_id g \<notin> fst ` set (ol_prior_states_dict co s db) \<longrightarrow> g' = g))
     (Games db) (Games (snd (ol_update_pre_game_data co fault s db)))
   \<and> Predictions (snd (ol_update_pre_game_data co fault s db)) = Predictions db"
proof (intro conjI)
  show "list_all2 (\<lambda>g g'. g' = g\<lparr>pre_game_data_finalized := pre_game_data_finalized g'\<rparr>
        \<and> (game_id g \<notin> fst ` set (du_prior_states_dict co s db) \<longrightarrow> g' = g))
     (Games db) (Games (snd (du_update_pre_game_data co fault s db)))"
    by (rule list_all2_mono [OF du_update_rows]) force
  show "list_all2 (\<lambda>g g'. g' = g\<lparr>pre_game_data_finalized := pre_game_data_finalized g'\<rparr>
        \<and> (game_id g \<notin> fst ` set (ol_prior_states_dict co s db) \<longrightarrow> g' = g))
     (Games db) (Games (snd (ol_update_pre_game_data co fault s db)))"
    by (rule list_all2_mono [OF ol_update_rows]) force
  show "Predictions (snd (du_update_pre_game_data co fault s db)) = Predictions db"
    by (simp add: du_update_pre_game_data_def Let_def write_keeps_other)
  show "Predictions (snd (ol_update_pre_game_data co fault s db)) = Predictions db"
    by (simp add: ol_update_pre_game_data_def Let_def write_keeps_other)
qed

text \<open>
  In the run on the small season the first row, \<open>gA\<close>, is not a key of the dictionary
  and stays as it is; of the third row only the flag changes.
\<close>

theorem update_pre_game_data_frame_witness:
  "game_id (Games season_db ! 0) \<notin> fst ` set (du_prior_states_dict example_collaborators ''2023-2024'' season_db)
   \<and> Games (snd (du_update_pre_game_data example_collaborators None ''2023-2024'' season_db)) ! 0
       = Games season_db ! 0
   \<and> Games (snd (du_update_pre_game_data example_collaborators None ''2023-2024'' season_db)) ! 2
       = (Games season_db ! 2)\<lparr>pre_game_data_finalized := 1\<rparr>"
proof -
  have key: "game_id (Games season_db ! 0)
      \<notin> fst ` set (du_prior_states_dict example_collaborators ''2023-2024'' season_db)"
    by (simp add: du_dict_example season_games game_ids)
  have len: "0 < length (Games season_db)" "2 < length (Games season_db)"
    by (simp_all add: example_defs)
  from update_pre_game_data_frame [of example_collaborators "''2023-2024''" season_db None]
  have all: "list_all2 (\<lambda>g g'. g' = g\<lparr>pre_game_data_finalized := pre_game_data_finalized g'\<rparr>
        \<and> (game_id g \<notin> fst ` set (du_prior_states_dict example_collaborators ''2023-2024'' season_db) \<longrightarrow> g' = g))
     (Games season_db)
     (Games (snd (du_update_pre_game_data example_collaborators None ''2023-2024'' season_db)))"
    by (rule conjunct1)
  from list_all2_nthD [OF all len(1)] key
  have "Games (snd (du_update_pre_game_data example_collaborators None ''2023-2024'' season_db)) ! 0
       = Games season_db ! 0" by simp
  moreover
  have "pre_game_data_finalized
     (Games (snd (du_update_pre_game_data example_collaborators None ''2023-2024'' season_db)) ! 2) = 1"
    by (simp add: du_run_example)
  with list_all2_nthD [OF all len(2)]
  have "Games (snd (du_update_pre_game_data example_collaborators None ''2023-2024'' season_db)) ! 2
       = (Games season_db ! 2)\<lparr>pre_game_data_finalized := 1\<rparr>" by simp
  ultimately show ?thesis using key by simp
qed

section \<open>A finalized flag is not reset (claim C6)\<close>

text \<open>
  Claim C6 (invariant I2). Let identifiers be unique, and let the loaded prior-states
  dictionary hold only identifiers of the pre-game-data work set. Then a run of
  \<open>update_pre_game_data\<close>, of either module and whatever the storage does, leaves
  every row whose \<open>pre_game_data_finalized\<close> was 1 as it was: the flag is still 1. The
  reason is the claim's: the work set holds only games whose flag is 0.
\<close>

theorem finalized_flag_not_reset:
  assumes "distinct (map game_id (Games db))"
  shows "(fst ` set (du_prior_states_dict co s db)
             \<subseteq> set (du_get_games_with_incomplete_pre_game_data s db) \<longrightarrow>
          list_all2 (\<lambda>g g'. pre_game_data_finalized g = 1 \<longrightarrow>
                        pre_game_data_finalized g' = 1 \<and> g' = g)
            (Games db) (Games (snd (du_update_pre_game_data co fault s db))))
       \<and> (fst ` set (ol_prior_states_dict co s db)
             \<subseteq> set (ol_get_games_with_incomplete_pre_game_data s db) \<longrightarrow>
          list_all2 (\<lambda>g g'. pre_game_data_finalized g = 1 \<longrightarrow>
                        pre_game_data_finalized g' = 1 \<and> g' = g)
            (Games db) (Games (snd (ol_update_pre_game_data co fault s db))))"
proof (intro conjI impI)
  assume sub: "fst ` set (du_prior_states_dict co s db)
             \<subseteq> set (du_get_games_with_incomplete_pre_game_data s db)"
  show "list_all2 (\<lambda>g g'. pre_game_data_finalized g = 1 \<longrightarrow>
                        pre_game_data_finalized g' = 1 \<and> g' = g)
            (Games db) (Games (snd (du_update_pre_game_data co fault s db)))"
    using assms
  proof (rule finalized_row_kept)
    fix gid
    assume "gid \<in> fst ` set (du_prior_states_dict co s db)"
    with sub have "gid \<in> set (du_get_games_with_incomplete_pre_game_data s db)" by blast
    then show "\<exists>g \<in> set (Games db). game_id g = gid \<and> pre_game_data_finalized g = 0"
      by (rule du_work_set_flag_0)
  qed (rule du_update_rows)
next
  assume sub: "fst ` set (ol_prior_states_dict co s db)
             \<subseteq> set (ol_get_games_with_incomplete_pre_game_data s db)"
  show "list_all2 (\<lambda>g g'. pre_game_data_finalized g = 1 \<longrightarrow>
                        pre_game_data_finalized g' = 1 \<and> g' = g)
            (Games db) (Games (snd (ol_update_pre_game_data co fault s db)))"
    using assms
  proof (rule finalized_row_kept)
    fix gid
    assume "gid \<in> fst ` set (ol_prior_states_dict co s db)"
    with sub have "gid \<in> set (ol_get_games_with_incomplete_pre_game_data s db)" by blast
    then show "\<exists>g \<in> set (Games db). game_id g = gid \<and> pre_game_data_finalized g = 0"
      by (rule ol_work_set_flag_0)
  qed (rule ol_update_rows)
qed

text \<open>
  In the run on the small season the dictionary holds \<open>H\<close> and \<open>C\<close>, the work set;
  \<open>gA\<close>, the first row, is finalized before the run and after it.
\<close>

theorem finalized_flag_not_reset_witness:
  "distinct (map game_id (Games season_db))
   \<and> fst ` set (du_prior_states_dict example_collaborators ''2023-2024'' season_db)
        \<subseteq> set (du_get_games_with_incomplete_pre_game_data ''2023-2024'' season_db)
   \<and> pre_game_data_finalized (Games season_db ! 0) = 1
   \<and> pre_game_data_finalized
       (Games (snd (du_update_pre_game_data example_collaborators None ''2023-2024'' season_db)) ! 0) = 1"
proof -
  have d: "distinct (map game_id (Games season_db))"
    by (simp add: season_games game_ids)
  have sub: "fst ` set (du_prior_states_dict example_collaborators ''2023-2024'' season_db)
        \<subseteq> set (du_get_games_with_incomplete_pre_game_data ''2023-2024'' season_db)"
    by (simp add: du_dict_example du_work_example)
  have one: "pre_game_data_finalized (Games season_db ! 0) = 1"
    by (simp add: season_games gA_def)
  have len: "0 < length (Games season_db)" by (simp add: season_games)
  from finalized_flag_not_reset [OF d, of example_collaborators "''2023-2024''" None] sub
  have "list_all2 (\<lambda>g g'. pre_game_data_finalized g = 1 \<longrightarrow>
                        pre_game_data_finalized g' = 1 \<and> g' = g)
            (Games season_db)
            (Games (snd (du_update_pre_game_data example_collaborators None ''2023-2024'' season_db)))"
    by blast
  from list_all2_nthD [OF this len] one
  have "pre_game_data_finalized
       (Games (snd (du_update_pre_game_data example_collaborators None ''2023-2024'' season_db)) ! 0) = 1"
    by simp
  with d sub one show ?thesis by simp
qed

section \<open>The order of the stages (claim C8)\<close>



end
